theory Spec2Isabelle
  imports Main "HOL-Library.Word" "HOL-Library.Log_Nat" "HOL-Library.Signed_Division"
begin

unbundle bit_operations_syntax

section \<open>Go values used by the benchmark\<close>

type_synonym byte = "8 word"

text \<open>A Go \<^verbatim>\<open>error\<close> coming out of a library call; only its presence is ever inspected.\<close>

type_synonym lib_error = string

text \<open>
  \<^verbatim>\<open>time.Duration\<close> is an \<^verbatim>\<open>int64\<close> count of nanoseconds, read as two's
  complement with \<open>sint\<close>.
\<close>

type_synonym Duration = "64 word"

text \<open>
  Go's \<^verbatim>\<open>int\<close> on the 64-bit targets of the Dockerfiles: an integer kept in the range
  \<open>-2^63 .. 2^63 - 1\<close>, with the wrap-around of \<^verbatim>\<open>++\<close> written out.
\<close>

definition wrap64 :: "int \<Rightarrow> int" where
  "wrap64 x = (x + 2 ^ 63) mod 2 ^ 64 - 2 ^ 63"

subsection \<open>float64\<close>

text \<open>
  The gauges, the cumulative durations, the averages and the ratios are \<^verbatim>\<open>float64\<close>.
  A finite binary64 value is kept as the rational number it denotes; \<open>round64\<close> is
  round-to-nearest, ties-to-even, to a 53-bit significand \<open>m\<close> times \<open>2^e\<close>, with
  gradual underflow (least exponent \<open>-1074\<close>) and overflow to infinity beyond the
  largest finite value \<open>(2^53 - 1) * 2^971\<close>. The sign of zero is not tracked: the program only
  tests \<^verbatim>\<open>> 0\<close>, and the one division whose divisor can be zero divides by a
  converted integer, which is \<open>+0\<close>.
\<close>

datatype float64 = Fin rat | PInf | NInf | NaN

definition pow2 :: "int \<Rightarrow> rat" where
  "pow2 e = (if 0 \<le> e then 2 ^ nat e else 1 / 2 ^ nat (- e))"

text \<open>\<open>ilog2 x\<close> is \<open>\<lfloor>log\<^sub>2 \<bar>x\<bar>\<rfloor>\<close> for \<open>x \<noteq> 0\<close>, from the bit lengths of numerator and denominator.\<close>

definition ilog2 :: "rat \<Rightarrow> int" where
  "ilog2 x = (case quotient_of \<bar>x\<bar> of (p, q) \<Rightarrow>
     let k = bitlen p - bitlen q
     in if pow2 k \<le> \<bar>x\<bar> then k else k - 1)"

definition rne :: "rat \<Rightarrow> int" where
  "rne x = (let f = \<lfloor>x\<rfloor>; r = x - of_int f
     in if r < 1 / 2 then f else if 1 / 2 < r then f + 1 else if even f then f else f + 1)"

definition round64 :: "rat \<Rightarrow> float64" where
  "round64 x = (if x = 0 then Fin 0 else
     let e = max (ilog2 x - 52) (- 1074);
         m = rne (x / pow2 e)
     in if 971 < e \<or> (e = 971 \<and> 2 ^ 53 \<le> \<bar>m\<bar>) then (if 0 < x then PInf else NInf)
        else Fin (of_int m * pow2 e))"

text \<open>The conversion \<^verbatim>\<open>float64(i)\<close> of an integer.\<close>

definition float64_of_int :: "int \<Rightarrow> float64" where
  "float64_of_int i = round64 (of_int i)"

text \<open>\<^verbatim>\<open>a + b\<close> on float64.\<close>

fun fadd :: "float64 \<Rightarrow> float64 \<Rightarrow> float64" where
  "fadd NaN _ = NaN"
| "fadd _ NaN = NaN"
| "fadd PInf NInf = NaN"
| "fadd NInf PInf = NaN"
| "fadd PInf _ = PInf"
| "fadd _ PInf = PInf"
| "fadd NInf _ = NInf"
| "fadd _ NInf = NInf"
| "fadd (Fin a) (Fin b) = round64 (a + b)"

text \<open>\<^verbatim>\<open>a / b\<close> on float64.\<close>

fun fdiv :: "float64 \<Rightarrow> float64 \<Rightarrow> float64" where
  "fdiv NaN _ = NaN"
| "fdiv _ NaN = NaN"
| "fdiv (Fin a) (Fin b) =
     (if b = 0 then (if a = 0 then NaN else if 0 < a then PInf else NInf)
      else round64 (a / b))"
| "fdiv (Fin a) _ = Fin 0"
| "fdiv PInf (Fin b) = (if 0 \<le> b then PInf else NInf)"
| "fdiv NInf (Fin b) = (if 0 \<le> b then NInf else PInf)"
| "fdiv _ _ = NaN"

text \<open>\<^verbatim>\<open>a > 0\<close> on float64; false for NaN.\<close>

fun fpositive :: "float64 \<Rightarrow> bool" where
  "fpositive (Fin a) = (0 < a)"
| "fpositive PInf = True"
| "fpositive _ = False"

text \<open>
  \<^verbatim>\<open>Duration.Seconds\<close> of package time:
  \<^verbatim>\<open>sec := d / Second; nsec := d % Second; return float64(sec) + float64(nsec)/1e9\<close>,
  with Go's truncating division.
\<close>

definition Seconds :: "Duration \<Rightarrow> float64" where
  "Seconds d =
     (let sec = sint d sdiv 1000000000;
          nsec = sint d smod 1000000000
      in fadd (float64_of_int sec) (fdiv (float64_of_int nsec) (Fin 1000000000)))"

section \<open>The library calls of one tick\<close>

record http_Response =
  StatusCode :: int
  Body :: string

record PublicKeyResponse =
  PublicKey :: string
  KeySize :: int

text \<open>The struct the ML-KEM side decodes into has a third field, \<^verbatim>\<open>algorithm\<close>.\<close>

record MLKEMPublicKeyResponse = PublicKeyResponse +
  Algorithm :: string

record rsa_PublicKey =
  N :: int
  E :: int

datatype kyber768_PublicKey = Kyber768PublicKey "byte list"

text \<open>
  What \<^verbatim>\<open>x509.ParsePKIXPublicKey\<close> and \<^verbatim>\<open>UnmarshalBinaryPublicKey\<close> return is an
  interface value; the callers assert its dynamic type.
\<close>

datatype pkix_key = RSAKey rsa_PublicKey | NonRSAKey

datatype kem_key = Kyber768Key kyber768_PublicKey | OtherKEMKey

text \<open>
  The program calls the network, the clock, the random source and the cryptographic
  libraries. A \<open>world\<close> fixes what each of these calls returns during one tick,
  randomness included. \<open>rand_Reader k\<close> is the \<open>k\<close>-th read of \<^verbatim>\<open>rand.Reader\<close> that
  the program itself makes in the tick: an error, or a supply of bytes from which
  \<^verbatim>\<open>io.ReadFull\<close> fills its buffer. \<open>aes_Encrypt key\<close> is the block operation of the
  cipher \<^verbatim>\<open>aes.NewCipher(key)\<close> returns.
\<close>

record world =
  http_Get :: "string \<Rightarrow> lib_error + http_Response"
  json_Decode :: "string \<Rightarrow> lib_error + PublicKeyResponse"
  json_Decode_mlkem :: "string \<Rightarrow> lib_error + MLKEMPublicKeyResponse"
  base64_DecodeString :: "string \<Rightarrow> lib_error + byte list"
  x509_ParsePKIXPublicKey :: "byte list \<Rightarrow> lib_error + pkix_key"
  kyber768_UnmarshalBinaryPublicKey :: "byte list \<Rightarrow> lib_error + kem_key"
  rand_Reader :: "nat \<Rightarrow> lib_error + (nat \<Rightarrow> byte)"
  aes_Encrypt :: "byte list \<Rightarrow> byte list \<Rightarrow> byte list"
  rsa_EncryptOAEP :: "rsa_PublicKey \<Rightarrow> byte list \<Rightarrow> lib_error + byte list"
  kyber768_Encapsulate :: "kyber768_PublicKey \<Rightarrow> lib_error + (byte list \<times> byte list)"
  rsaEncryptDuration :: Duration
  mlkemEncapsulateDuration :: Duration

text \<open>\<^verbatim>\<open>io.ReadFull(rand.Reader, buf)\<close> for a buffer of \<open>n\<close> bytes.\<close>

definition io_ReadFull :: "world \<Rightarrow> nat \<Rightarrow> nat \<Rightarrow> lib_error + byte list" where
  "io_ReadFull w k n =
     (case rand_Reader w k of Inl err \<Rightarrow> Inl err | Inr supply \<Rightarrow> Inr (map supply [0..<n]))"

section \<open>Fetching the public keys\<close>

datatype fetch_error =
    HTTPGetError lib_error
  | HTTPStatusError int
  | JSONDecodeError lib_error
  | Base64DecodeError lib_error
  | PublicKeyParseError lib_error
  | PublicKeyConversionError

definition fetchPublicKey :: "world \<Rightarrow> string \<Rightarrow> fetch_error + (rsa_PublicKey \<times> byte list)" where
  "fetchPublicKey w url =
     (case http_Get w url of
        Inl err \<Rightarrow> Inl (HTTPGetError err)
      | Inr resp \<Rightarrow>
          if StatusCode resp \<noteq> 200 then Inl (HTTPStatusError (StatusCode resp))
          else (case json_Decode w (Body resp) of
            Inl err \<Rightarrow> Inl (JSONDecodeError err)
          | Inr pubKeyResp \<Rightarrow>
              (case base64_DecodeString w (PublicKey pubKeyResp) of
                 Inl err \<Rightarrow> Inl (Base64DecodeError err)
               | Inr pubKeyBytes \<Rightarrow>
                   (case x509_ParsePKIXPublicKey w pubKeyBytes of
                      Inl err \<Rightarrow> Inl (PublicKeyParseError err)
                    | Inr pubKeyInterface \<Rightarrow>
                        (case pubKeyInterface of
                           RSAKey publicKey \<Rightarrow> Inr (publicKey, pubKeyBytes)
                         | NonRSAKey \<Rightarrow> Inl PublicKeyConversionError)))))"

definition fetchMLKEMPublicKey ::
  "world \<Rightarrow> string \<Rightarrow> fetch_error + (kyber768_PublicKey \<times> byte list)" where
  "fetchMLKEMPublicKey w url =
     (case http_Get w url of
        Inl err \<Rightarrow> Inl (HTTPGetError err)
      | Inr resp \<Rightarrow>
          if StatusCode resp \<noteq> 200 then Inl (HTTPStatusError (StatusCode resp))
          else (case json_Decode_mlkem w (Body resp) of
            Inl err \<Rightarrow> Inl (JSONDecodeError err)
          | Inr pubKeyResp \<Rightarrow>
              (case base64_DecodeString w (PublicKey pubKeyResp) of
                 Inl err \<Rightarrow> Inl (Base64DecodeError err)
               | Inr pubKeyBytes \<Rightarrow>
                   (case kyber768_UnmarshalBinaryPublicKey w pubKeyBytes of
                      Inl err \<Rightarrow> Inl (PublicKeyParseError err)
                    | Inr publicKey \<Rightarrow>
                        (case publicKey of
                           Kyber768Key mlkemPublicKey \<Rightarrow> Inr (mlkemPublicKey, pubKeyBytes)
                         | OtherKEMKey \<Rightarrow> Inl PublicKeyConversionError)))))"

section \<open>The symmetric encryptor\<close>

definition aes_BlockSize :: nat where
  "aes_BlockSize = 16"

datatype aes_error =
    KeySizeError nat
  | RandomSourceError lib_error
  | Panic string

text \<open>\<^verbatim>\<open>subtle.XORBytes\<close>: the bytewise exclusive or, over the shorter of the two lengths.\<close>

definition xor_bytes :: "byte list \<Rightarrow> byte list \<Rightarrow> byte list" where
  "xor_bytes xs ys = map2 (XOR) xs ys"

text \<open>
  The loop of \<^verbatim>\<open>cbcEncrypter.CryptBlocks\<close> in crypto/cipher: each block of the source is
  xored with the previous ciphertext block (the IV for the first one) and encrypted.
\<close>

function cbc_CryptBlocks ::
  "(byte list \<Rightarrow> byte list) \<Rightarrow> byte list \<Rightarrow> byte list \<Rightarrow> byte list" where
  "cbc_CryptBlocks enc iv src =
     (if src = [] then []
      else (let c = enc (xor_bytes (take aes_BlockSize src) iv)
            in c @ cbc_CryptBlocks enc c (drop aes_BlockSize src)))"
  by pat_completeness auto
termination
  by (relation "measure (\<lambda>(enc, iv, src). length src)") (auto simp: aes_BlockSize_def)

text \<open>
  \<^verbatim>\<open>cipher.NewCBCEncrypter(block, iv)\<close> followed by \<^verbatim>\<open>CryptBlocks(dst, src)\<close> into a
  destination of the source's length; both panic on lengths that do not fit the block size.
\<close>

definition cipher_CBCEncrypt ::
  "(byte list \<Rightarrow> byte list) \<Rightarrow> byte list \<Rightarrow> byte list \<Rightarrow> aes_error + byte list" where
  "cipher_CBCEncrypt enc iv src =
     (if length iv \<noteq> aes_BlockSize
      then Inl (Panic ''cipher.NewCBCEncrypter: IV length must equal block size'')
      else if length src mod aes_BlockSize \<noteq> 0
      then Inl (Panic ''crypto/cipher: input not full blocks'')
      else Inr (cbc_CryptBlocks enc iv src))"

text \<open>\<^verbatim>\<open>aes.NewCipher\<close> accepts keys of 16, 24 and 32 bytes.\<close>

definition aes_NewCipher :: "world \<Rightarrow> byte list \<Rightarrow> aes_error + (byte list \<Rightarrow> byte list)" where
  "aes_NewCipher w key =
     (if length key = 16 \<or> length key = 24 \<or> length key = 32
      then Inr (aes_Encrypt w key) else Inl (KeySizeError (length key)))"

text \<open>
  \<^verbatim>\<open>encryptAES\<close>. Its read of the random source for the IV is the second read of the
  tick; the first one generated the key.
\<close>

definition encryptAES ::
  "world \<Rightarrow> byte list \<Rightarrow> byte list \<Rightarrow> aes_error + (byte list \<times> byte list)" where
  "encryptAES w plaintext key =
     (case aes_NewCipher w key of
        Inl err \<Rightarrow> Inl err
      | Inr block \<Rightarrow>
          (let padding = aes_BlockSize - length plaintext mod aes_BlockSize;
               padtext = replicate padding (of_nat padding :: byte);
               plaintext = plaintext @ padtext
           in case io_ReadFull w 1 aes_BlockSize of
                Inl err \<Rightarrow> Inl (RandomSourceError err)
              | Inr iv \<Rightarrow>
                  (case cipher_CBCEncrypt block iv plaintext of
                     Inl err \<Rightarrow> Inl err
                   | Inr ciphertext \<Rightarrow> Inr (ciphertext, iv))))"

section \<open>Wrapping the symmetric key\<close>

definition encryptRSA :: "world \<Rightarrow> rsa_PublicKey \<Rightarrow> byte list \<Rightarrow> lib_error + byte list" where
  "encryptRSA w publicKey data =
     (case rsa_EncryptOAEP w publicKey data of
        Inl err \<Rightarrow> Inl err
      | Inr ciphertext \<Rightarrow> Inr ciphertext)"

definition encryptMLKEM ::
  "world \<Rightarrow> kyber768_PublicKey \<Rightarrow> byte list \<Rightarrow> lib_error + (byte list \<times> byte list)" where
  "encryptMLKEM w publicKey data =
     (case kyber768_Encapsulate w publicKey of
        Inl err \<Rightarrow> Inl err
      | Inr (ciphertext, sharedSecret) \<Rightarrow> Inr (ciphertext, sharedSecret))"

section \<open>The benchmark loop\<close>

text \<open>
  The gauges and the counter registered with Prometheus, the three package variables
  behind the averages, and the loop's own tick counter.
\<close>

record state =
  rsaEncryptedKeySize :: float64
  mlkemEncryptedKeySize :: float64
  rsaPublicKeySize :: float64
  mlkemPublicKeySize :: float64
  rsaEncryptionDuration :: float64
  mlkemEncapsulationDuration :: float64
  encryptionDurationRatio :: float64
  encryptedKeySizeRatio :: float64
  publicKeySizeRatio :: float64
  rsaEncryptionDurationAvg :: float64
  mlkemEncapsulationDurationAvg :: float64
  encryptionCounter :: nat
  rsaTotalDuration :: float64
  mlkemTotalDuration :: float64
  operationCount :: int
  counter :: int

definition initial_state :: state where
  "initial_state =
     \<lparr>rsaEncryptedKeySize = Fin 0, mlkemEncryptedKeySize = Fin 0,
      rsaPublicKeySize = Fin 0, mlkemPublicKeySize = Fin 0,
      rsaEncryptionDuration = Fin 0, mlkemEncapsulationDuration = Fin 0,
      encryptionDurationRatio = Fin 0, encryptedKeySizeRatio = Fin 0,
      publicKeySizeRatio = Fin 0,
      rsaEncryptionDurationAvg = Fin 0, mlkemEncapsulationDurationAvg = Fin 0,
      encryptionCounter = 0,
      rsaTotalDuration = Fin 0, mlkemTotalDuration = Fin 0,
      operationCount = 0, counter = 0\<rparr>"

text \<open>The one message of \<^verbatim>\<open>messages\<close>, as its 60 bytes of UTF-8.\<close>

definition messages :: "byte list list" where
  "messages =
    [[233, 135, 143, 229, 173, 144, 227, 130, 179, 227, 131, 179,
     227, 131, 148, 227, 131, 165, 227, 131, 188, 227, 130, 191,
     227, 129, 171, 229, 175, 190, 230, 138, 151, 227, 129, 153,
     227, 130, 139, 227, 131, 157, 227, 130, 185, 227, 131, 136,
     233, 135, 143, 229, 173, 144, 230, 154, 151, 229, 143, 183]]"

text \<open>The lengths that the summary at the end of a completed iteration prints.\<close>

record summary =
  len_rsaPubKeyBytes :: nat
  len_mlkemPubKeyBytes :: nat
  len_rsaEncryptedAESKey :: nat
  len_mlkemCiphertext :: nat
  len_encryptedMessage :: nat
  len_iv :: nat

datatype tick_outcome =
    Completed summary
  | RSAFetchFailed fetch_error
  | MLKEMFetchFailed fetch_error
  | AESKeyGenFailed lib_error
  | AESEncryptFailed aes_error
  | RSAEncryptFailed lib_error
  | MLKEMEncryptFailed lib_error
  | Crashed string

text \<open>Lines 256 to 263 of the loop body: the cumulative values and the two averages.\<close>

definition recordAverages :: "Duration \<Rightarrow> Duration \<Rightarrow> state \<Rightarrow> state" where
  "recordAverages rsaDuration mlkemDuration s =
     (let s = s\<lparr>operationCount := wrap64 (operationCount s + 1)\<rparr>;
          s = s\<lparr>rsaTotalDuration := fadd (rsaTotalDuration s) (Seconds rsaDuration)\<rparr>;
          s = s\<lparr>mlkemTotalDuration := fadd (mlkemTotalDuration s) (Seconds mlkemDuration)\<rparr>;
          rsaAvg = fdiv (rsaTotalDuration s) (float64_of_int (operationCount s));
          mlkemAvg = fdiv (mlkemTotalDuration s) (float64_of_int (operationCount s));
          s = s\<lparr>rsaEncryptionDurationAvg := rsaAvg\<rparr>
      in s\<lparr>mlkemEncapsulationDurationAvg := mlkemAvg\<rparr>)"

text \<open>Lines 265 to 277: the three ratios, each behind its guard.\<close>

definition recordRatios ::
  "Duration \<Rightarrow> Duration \<Rightarrow> byte list \<Rightarrow> byte list \<Rightarrow> byte list \<Rightarrow> byte list \<Rightarrow> state \<Rightarrow> state"
  where
  "recordRatios rsaDuration mlkemDuration rsaEncryptedAESKey mlkemCiphertext
       rsaPubKeyBytes mlkemPubKeyBytes s =
     (let s = (if fpositive (Seconds rsaDuration)
               then s\<lparr>encryptionDurationRatio :=
                        fdiv (Seconds mlkemDuration) (Seconds rsaDuration)\<rparr>
               else s);
          s = (if length rsaEncryptedAESKey > 0
               then s\<lparr>encryptedKeySizeRatio :=
                        fdiv (float64_of_int (int (length mlkemCiphertext)))
                             (float64_of_int (int (length rsaEncryptedAESKey)))\<rparr>
               else s)
      in (if length rsaPubKeyBytes > 0
          then s\<lparr>publicKeySizeRatio :=
                   fdiv (float64_of_int (int (length mlkemPubKeyBytes)))
                        (float64_of_int (int (length rsaPubKeyBytes)))\<rparr>
          else s))"

text \<open>
  One iteration of \<^verbatim>\<open>for range ticker.C\<close>. Every \<^verbatim>\<open>continue\<close> of the source is an
  outcome other than \<open>Completed\<close>, returned with the state as it is at that point; a
  panic inside \<^verbatim>\<open>encryptAES\<close> is the outcome \<open>Crashed\<close>.
\<close>

definition tick :: "world \<Rightarrow> state \<Rightarrow> tick_outcome \<times> state" where
  "tick w s =
     (let s = s\<lparr>counter := wrap64 (counter s + 1)\<rparr>;
          message = messages ! nat (counter s smod int (length messages));
          s = s\<lparr>encryptionCounter := encryptionCounter s + 1\<rparr>
      in case fetchPublicKey w ''http://rsa-server:8080/public-key'' of
           Inl err \<Rightarrow> (RSAFetchFailed err, s)
         | Inr (rsaPublicKey, rsaPubKeyBytes) \<Rightarrow>
     (let s = s\<lparr>rsaPublicKeySize := float64_of_int (int (length rsaPubKeyBytes))\<rparr>
      in case fetchMLKEMPublicKey w ''http://ml-kem-server:8081/public-key'' of
           Inl err \<Rightarrow> (MLKEMFetchFailed err, s)
         | Inr (mlkemPublicKey, mlkemPubKeyBytes) \<Rightarrow>
     (let s = s\<lparr>mlkemPublicKeySize := float64_of_int (int (length mlkemPubKeyBytes))\<rparr>
      in case io_ReadFull w 0 32 of
           Inl err \<Rightarrow> (AESKeyGenFailed err, s)
         | Inr aesKey \<Rightarrow>
     (case encryptAES w message aesKey of
           Inl (Panic msg) \<Rightarrow> (Crashed msg, s)
         | Inl err \<Rightarrow> (AESEncryptFailed err, s)
         | Inr (encryptedMessage, iv) \<Rightarrow>
     (case encryptRSA w rsaPublicKey aesKey of
           Inl err \<Rightarrow> (RSAEncryptFailed err, s)
         | Inr rsaEncryptedAESKey \<Rightarrow>
     (let s = s\<lparr>rsaEncryptedKeySize := float64_of_int (int (length rsaEncryptedAESKey))\<rparr>;
          s = s\<lparr>rsaEncryptionDuration := Seconds (rsaEncryptDuration w)\<rparr>
      in case encryptMLKEM w mlkemPublicKey aesKey of
           Inl err \<Rightarrow> (MLKEMEncryptFailed err, s)
         | Inr (mlkemCiphertext, sharedSecret) \<Rightarrow>
     (let s = s\<lparr>mlkemEncryptedKeySize := float64_of_int (int (length mlkemCiphertext))\<rparr>;
          s = s\<lparr>mlkemEncapsulationDuration := Seconds (mlkemEncapsulateDuration w)\<rparr>;
          s = recordAverages (rsaEncryptDuration w) (mlkemEncapsulateDuration w) s;
          s = recordRatios (rsaEncryptDuration w) (mlkemEncapsulateDuration w)
                rsaEncryptedAESKey mlkemCiphertext rsaPubKeyBytes mlkemPubKeyBytes s
      in (Completed \<lparr>len_rsaPubKeyBytes = length rsaPubKeyBytes,
                      len_mlkemPubKeyBytes = length mlkemPubKeyBytes,
                      len_rsaEncryptedAESKey = length rsaEncryptedAESKey,
                      len_mlkemCiphertext = length mlkemCiphertext,
                      len_encryptedMessage = length encryptedMessage,
                      len_iv = length iv\<rparr>, s))))))))"

fun completed :: "tick_outcome \<Rightarrow> bool" where
  "completed (Completed m) = True"
| "completed _ = False"

text \<open>
  The loop over a finite run of timer firings; the \<open>i\<close>-th world fixes the library
  calls of the \<open>i\<close>-th tick. The result lists the outcomes in order.
\<close>

fun run :: "world list \<Rightarrow> state \<Rightarrow> tick_outcome list \<times> state" where
  "run [] s = ([], s)"
| "run (w # ws) s =
     (case tick w s of (outcome, s1) \<Rightarrow>
        (case run ws s1 of (outcomes, s2) \<Rightarrow> (outcome # outcomes, s2)))"

text \<open>The worlds of the completed ticks of a run, in order.\<close>

fun completed_worlds :: "world list \<Rightarrow> tick_outcome list \<Rightarrow> world list" where
  "completed_worlds (w # ws) (outcome # outcomes) =
     (if completed outcome then w # completed_worlds ws outcomes
      else completed_worlds ws outcomes)"
| "completed_worlds _ _ = []"

section \<open>The key-issuing servers\<close>

text \<open>
  The two servers are separate programs, each with a handler \<^verbatim>\<open>getPublicKeyHandler\<close>.
  A handler answers with an HTTP error status or with a JSON document, kept as the struct
  it encodes. The servers' own Prometheus metrics are not part of the answer.
\<close>

datatype 'a http_reply = HTTPError int | JSONReply 'a

record rsa_PrivateKey =
  priv_PublicKey :: rsa_PublicKey
  priv_D :: int

record rsa_server_world =
  rsa_GenerateKey :: "nat \<Rightarrow> lib_error + rsa_PrivateKey"
  x509_MarshalPKIXPublicKey :: "rsa_PublicKey \<Rightarrow> lib_error + byte list"
  rsa_base64_EncodeToString :: "byte list \<Rightarrow> string"

definition rsa_getPublicKeyHandler ::
  "rsa_server_world \<Rightarrow> string \<Rightarrow> PublicKeyResponse http_reply" where
  "rsa_getPublicKeyHandler sw method =
     (if method \<noteq> ''GET'' then HTTPError 405
      else (case rsa_GenerateKey sw 2048 of
        Inl err \<Rightarrow> HTTPError 500
      | Inr privateKey \<Rightarrow>
          (let publicKey = priv_PublicKey privateKey
           in case x509_MarshalPKIXPublicKey sw publicKey of
                Inl err \<Rightarrow> HTTPError 500
              | Inr pubKeyBytes \<Rightarrow>
                  (let pubKeyBase64 = rsa_base64_EncodeToString sw pubKeyBytes
                   in JSONReply \<lparr>PublicKey = pubKeyBase64, KeySize = 2048\<rparr>))))"

record mlkem_server_world =
  kyber768_GenerateKeyPair :: "lib_error + (kyber768_PublicKey \<times> byte list)"
  kyber768_MarshalBinary :: "kyber768_PublicKey \<Rightarrow> lib_error + byte list"
  mlkem_base64_EncodeToString :: "byte list \<Rightarrow> string"

definition mlkem_getPublicKeyHandler ::
  "mlkem_server_world \<Rightarrow> string \<Rightarrow> MLKEMPublicKeyResponse http_reply" where
  "mlkem_getPublicKeyHandler sw method =
     (if method \<noteq> ''GET'' then HTTPError 405
      else (case kyber768_GenerateKeyPair sw of
        Inl err \<Rightarrow> HTTPError 500
      | Inr (publicKey, privateKey) \<Rightarrow>
          (case kyber768_MarshalBinary sw publicKey of
             Inl err \<Rightarrow> HTTPError 500
           | Inr pubKeyBytes \<Rightarrow>
               (let pubKeyBase64 = mlkem_base64_EncodeToString sw pubKeyBytes
                in JSONReply \<lparr>PublicKey = pubKeyBase64, KeySize = int (length pubKeyBytes),
                               Algorithm = ''ML-KEM-768 (Kyber-768)''\<rparr>))))"

section \<open>Decryption, as the round-trip property states it\<close>

text \<open>
  The repository only encrypts. The round-trip property is stated against the inverse
  operations it names: CBC decryption with the same key and IV, where each ciphertext
  block is decrypted and xored with the previous ciphertext block, and the removal of
  PKCS padding, which reads the number of padding bytes from the last byte.
\<close>

function spec_cbc_decrypt ::
  "(byte list \<Rightarrow> byte list) \<Rightarrow> byte list \<Rightarrow> byte list \<Rightarrow> byte list" where
  "spec_cbc_decrypt dec iv src =
     (if src = [] then []
      else (let c = take aes_BlockSize src
            in xor_bytes (dec c) iv @ spec_cbc_decrypt dec c (drop aes_BlockSize src)))"
  by pat_completeness auto
termination
  by (relation "measure (\<lambda>(dec, iv, src). length src)") (auto simp: aes_BlockSize_def)

definition spec_strip_padding :: "byte list \<Rightarrow> byte list option" where
  "spec_strip_padding bs =
     (if bs = [] then None
      else (let n = unat (last bs)
            in if n = 0 \<or> aes_BlockSize < n \<or> length bs < n then None
               else if drop (length bs - n) bs \<noteq> replicate n (last bs) then None
               else Some (take (length bs - n) bs)))"

section \<open>Example worlds\<close>

text \<open>
  Concrete library behaviour for the examples: base64 after RFC 4648 with padding, a
  block operation that xors the block with the first 16 key bytes (it is its own
  inverse), and keys and ciphertexts of the sizes the real libraries produce.
\<close>

definition b64_index :: "char \<Rightarrow> nat option" where
  "b64_index c =
     (let n = (of_char c :: nat)
      in if 65 \<le> n \<and> n \<le> 90 then Some (n - 65)
         else if 97 \<le> n \<and> n \<le> 122 then Some (n - 71)
         else if 48 \<le> n \<and> n \<le> 57 then Some (n + 4)
         else if n = 43 then Some 62
         else if n = 47 then Some 63
         else None)"

fun b64_decode :: "string \<Rightarrow> lib_error + byte list" where
  "b64_decode [] = Inr []"
| "b64_decode (a # b # c # d # rest) =
     (case (b64_index a, b64_index b) of
        (Some x, Some y) \<Rightarrow>
          (if rest = [] \<and> c = CHR ''='' \<and> d = CHR ''=''
           then Inr [of_nat (x * 4 + y div 16)]
           else (case b64_index c of
             None \<Rightarrow> Inl ''illegal base64 data''
           | Some z \<Rightarrow>
               (if rest = [] \<and> d = CHR ''=''
                then Inr [of_nat (x * 4 + y div 16), of_nat (y * 16 + z div 4)]
                else (case b64_index d of
                  None \<Rightarrow> Inl ''illegal base64 data''
                | Some t \<Rightarrow>
                    (case b64_decode rest of
                       Inl err \<Rightarrow> Inl err
                     | Inr bs \<Rightarrow>
                         Inr (of_nat (x * 4 + y div 16) # of_nat (y * 16 + z div 4)
                              # of_nat (z * 64 + t) # bs))))))
      | _ \<Rightarrow> Inl ''illegal base64 data'')"
| "b64_decode _ = Inl ''illegal base64 data''"

definition b64_char :: "nat \<Rightarrow> char" where
  "b64_char i =
     (if i < 26 then char_of (i + 65)
      else if i < 52 then char_of (i + 71)
      else if i < 62 then char_of (i - 4)
      else if i = 62 then CHR ''+'' else CHR ''/'')"

fun b64_encode :: "byte list \<Rightarrow> string" where
  "b64_encode (x # y # z # rest) =
     b64_char (unat x div 4) # b64_char (unat x mod 4 * 16 + unat y div 16)
     # b64_char (unat y mod 16 * 4 + unat z div 64) # b64_char (unat z mod 64)
     # b64_encode rest"
| "b64_encode [x, y] =
     [b64_char (unat x div 4), b64_char (unat x mod 4 * 16 + unat y div 16),
      b64_char (unat y mod 16 * 4), CHR ''='']"
| "b64_encode [x] =
     [b64_char (unat x div 4), b64_char (unat x mod 4 * 16), CHR ''='', CHR ''='']"
| "b64_encode [] = []"

definition toy_block :: "byte list \<Rightarrow> byte list \<Rightarrow> byte list" where
  "toy_block key block = xor_bytes block (take aes_BlockSize key)"

text \<open>A DER SubjectPublicKeyInfo of a 2048-bit RSA key with exponent 65537: 294 bytes.\<close>

definition example_rsa_der :: "byte list" where
  "example_rsa_der =
     [48, 130, 1, 34, 48, 13, 6, 9, 42, 134, 72, 134, 247, 13, 1, 1, 1, 5, 0, 3, 130, 1, 15, 0, 48, 130, 1, 10, 2, 130, 1, 1, 0]
     @ replicate 256 197 @ [2, 3, 1, 0, 1]"

text \<open>A serialized Kyber-768 public key has 1184 bytes.\<close>

definition example_mlkem_key :: "byte list" where
  "example_mlkem_key = replicate 1184 42"

definition rsa_url :: string where
  "rsa_url = ''http://rsa-server:8080/public-key''"

definition mlkem_url :: string where
  "mlkem_url = ''http://ml-kem-server:8081/public-key''"

text \<open>
  A tick in which everything succeeds: the RSA wrap takes 100 ms and yields 256 bytes,
  the encapsulation takes 2 ms and yields 1088 bytes.
\<close>

definition good_world :: world where
  "good_world =
     \<lparr>http_Get = (\<lambda>url. if url = rsa_url then Inr \<lparr>StatusCode = 200, Body = ''rsa''\<rparr>
                        else if url = mlkem_url then Inr \<lparr>StatusCode = 200, Body = ''mlkem''\<rparr>
                        else Inl ''no such host''),
      json_Decode = (\<lambda>body. Inr \<lparr>PublicKey = b64_encode example_rsa_der, KeySize = 2048\<rparr>),
      json_Decode_mlkem = (\<lambda>body. Inr \<lparr>PublicKey = b64_encode example_mlkem_key,
                                           KeySize = 1184,
                                           Algorithm = ''ML-KEM-768 (Kyber-768)''\<rparr>),
      base64_DecodeString = b64_decode,
      x509_ParsePKIXPublicKey = (\<lambda>der. if length der = 294
                                         then Inr (RSAKey \<lparr>N = 3233, E = 65537\<rparr>)
                                         else Inl ''x509: failed to parse public key''),
      kyber768_UnmarshalBinaryPublicKey = (\<lambda>bs. if length bs = 1184
                                         then Inr (Kyber768Key (Kyber768PublicKey bs))
                                         else Inl ''kyber768: wrong size for public key''),
      rand_Reader = (\<lambda>k. Inr (\<lambda>i. of_nat (7 * i + k))),
      aes_Encrypt = toy_block,
      rsa_EncryptOAEP = (\<lambda>pub msg. if 190 < length msg
                                     then Inl ''crypto/rsa: message too long for RSA key size''
                                     else Inr (replicate 256 1)),
      kyber768_Encapsulate = (\<lambda>pk. Inr (replicate 1088 2, replicate 32 3)),
      rsaEncryptDuration = 100000000,
      mlkemEncapsulateDuration = 2000000\<rparr>"

text \<open>The key and the IV that the random source of \<open>good_world\<close> hands out.\<close>

definition example_key :: "byte list" where
  "example_key = map (\<lambda>i. of_nat (7 * i)) [0..<32]"

definition example_iv :: "byte list" where
  "example_iv = map (\<lambda>i. of_nat (7 * i + 1)) [0..<16]"

definition example_ciphertext :: "byte list" where
  "example_ciphertext =
     cbc_CryptBlocks (toy_block example_key) example_iv (hd messages @ replicate 4 4)"

text \<open>What the summary of a tick in \<open>good_world\<close> prints.\<close>

definition good_summary :: summary where
  "good_summary = \<lparr>len_rsaPubKeyBytes = 294, len_mlkemPubKeyBytes = 1184,
     len_rsaEncryptedAESKey = 256, len_mlkemCiphertext = 1088,
     len_encryptedMessage = 64, len_iv = 16\<rparr>"

text \<open>The ML-KEM server cannot be reached; the RSA server answers as before.\<close>

definition mlkem_down_world :: world where
  "mlkem_down_world =
     good_world\<lparr>http_Get := (\<lambda>url. if url = rsa_url
                                    then Inr \<lparr>StatusCode = 200, Body = ''rsa''\<rparr>
                                    else Inl ''connection refused'')\<rparr>"

text \<open>The RSA server's payload is not base64.\<close>

definition rsa_bad_base64_world :: world where
  "rsa_bad_base64_world =
     good_world\<lparr>json_Decode := (\<lambda>body. Inr \<lparr>PublicKey = ''@@@@'', KeySize = 2048\<rparr>)\<rparr>"

text \<open>The ML-KEM server's payload is not base64.\<close>

definition mlkem_bad_base64_world :: world where
  "mlkem_bad_base64_world =
     good_world\<lparr>json_Decode_mlkem :=
       (\<lambda>body. Inr \<lparr>PublicKey = ''AQID*A=='', KeySize = 1184,
                   Algorithm = ''ML-KEM-768 (Kyber-768)''\<rparr>)\<rparr>"

text \<open>
  A tick that completes although every RSA-side measurement is zero: an empty key
  payload that the parser lets through, an empty wrapped key, and a clock that did not
  advance during the RSA wrap.
\<close>

definition zero_world :: world where
  "zero_world =
     good_world\<lparr>json_Decode := (\<lambda>body. Inr \<lparr>PublicKey = [], KeySize = 0\<rparr>),
                 x509_ParsePKIXPublicKey := (\<lambda>der. Inr (RSAKey \<lparr>N = 3233, E = 65537\<rparr>)),
                 rsa_EncryptOAEP := (\<lambda>pub msg. Inr []),
                 rsaEncryptDuration := 0\<rparr>"

definition example_rsa_server :: rsa_server_world where
  "example_rsa_server =
     \<lparr>rsa_GenerateKey = (\<lambda>bits. Inr \<lparr>priv_PublicKey = \<lparr>N = 3233, E = 65537\<rparr>, priv_D = 413\<rparr>),
      x509_MarshalPKIXPublicKey = (\<lambda>pub. Inr example_rsa_der),
      rsa_base64_EncodeToString = b64_encode\<rparr>"

definition example_mlkem_server :: mlkem_server_world where
  "example_mlkem_server =
     \<lparr>kyber768_GenerateKeyPair = Inr (Kyber768PublicKey example_mlkem_key, replicate 2400 9),
      kyber768_MarshalBinary = (\<lambda>pk. case pk of Kyber768PublicKey bs \<Rightarrow> Inr bs),
      mlkem_base64_EncodeToString = b64_encode\<rparr>"

declare cbc_CryptBlocks.simps [simp del] spec_cbc_decrypt.simps [simp del]

lemma xor_bytes_length: "length (xor_bytes xs ys) = min (length xs) (length ys)"
  by (simp add: xor_bytes_def)

lemma xor_bytes_cancel: "length xs = length ys \<Longrightarrow> xor_bytes (xor_bytes xs ys) ys = xs"
  unfolding xor_bytes_def
  by (induction xs ys rule: list_induct2) (simp_all add: xor.assoc)

lemma cbc_CryptBlocks_length:
  assumes enc: "\<And>b. length b = aes_BlockSize \<Longrightarrow> length (enc b) = aes_BlockSize"
  shows "length iv = aes_BlockSize \<Longrightarrow> length src = aes_BlockSize * n \<Longrightarrow>
         length (cbc_CryptBlocks enc iv src) = aes_BlockSize * n"
proof (induction n arbitrary: iv src)
  case 0
  then show ?case by (simp add: cbc_CryptBlocks.simps)
next
  case (Suc n)
  let ?c = "enc (xor_bytes (take aes_BlockSize src) iv)"
  have ne: "src \<noteq> []" using Suc.prems(2) by (auto simp: aes_BlockSize_def)
  have "length (xor_bytes (take aes_BlockSize src) iv) = aes_BlockSize"
    using Suc.prems by (simp add: xor_bytes_length)
  then have c: "length ?c = aes_BlockSize" by (rule enc)
  have "length (drop aes_BlockSize src) = aes_BlockSize * n"
    using Suc.prems(2) by simp
  with c have "length (cbc_CryptBlocks enc ?c (drop aes_BlockSize src)) = aes_BlockSize * n"
    by (rule Suc.IH)
  with c ne show ?case
    by (subst cbc_CryptBlocks.simps) (simp add: Let_def)
qed

lemma cbc_roundtrip:
  assumes enc: "\<And>b. length b = aes_BlockSize \<Longrightarrow> length (enc b) = aes_BlockSize"
    and dec: "\<And>b. length b = aes_BlockSize \<Longrightarrow> dec (enc b) = b"
  shows "length iv = aes_BlockSize \<Longrightarrow> length src = aes_BlockSize * n \<Longrightarrow>
         spec_cbc_decrypt dec iv (cbc_CryptBlocks enc iv src) = src"
proof (induction n arbitrary: iv src)
  case 0
  then show ?case by (simp add: cbc_CryptBlocks.simps spec_cbc_decrypt.simps)
next
  case (Suc n)
  let ?x = "xor_bytes (take aes_BlockSize src) iv"
  let ?c = "enc ?x"
  let ?rest = "cbc_CryptBlocks enc ?c (drop aes_BlockSize src)"
  have ne: "src \<noteq> []" using Suc.prems(2) by (auto simp: aes_BlockSize_def)
  have tk: "length (take aes_BlockSize src) = aes_BlockSize"
    using Suc.prems(2) by simp
  have x: "length ?x = aes_BlockSize"
    using Suc.prems by (simp add: xor_bytes_length)
  then have c: "length ?c = aes_BlockSize" by (rule enc)
  have dr: "length (drop aes_BlockSize src) = aes_BlockSize * n"
    using Suc.prems(2) by simp
  have ih: "spec_cbc_decrypt dec ?c ?rest = drop aes_BlockSize src"
    using c dr by (rule Suc.IH)
  have enc_eq: "cbc_CryptBlocks enc iv src = ?c @ ?rest"
    using ne by (subst cbc_CryptBlocks.simps) (simp add: Let_def)
  have cne: "?c @ ?rest \<noteq> []" using c by (auto simp: aes_BlockSize_def)
  have bk: "xor_bytes (dec ?c) iv = take aes_BlockSize src"
    using dec [OF x] tk Suc.prems(1) by (simp add: xor_bytes_cancel)
  have tkc: "take aes_BlockSize (?c @ ?rest) = ?c" and drc: "drop aes_BlockSize (?c @ ?rest) = ?rest"
    using c by simp_all
  have "spec_cbc_decrypt dec iv (?c @ ?rest) =
        xor_bytes (dec (take aes_BlockSize (?c @ ?rest))) iv
        @ spec_cbc_decrypt dec (take aes_BlockSize (?c @ ?rest)) (drop aes_BlockSize (?c @ ?rest))"
    using cne by (subst spec_cbc_decrypt.simps) (simp only: Let_def if_False)
  then have "spec_cbc_decrypt dec iv (?c @ ?rest) = take aes_BlockSize src @ drop aes_BlockSize src"
    by (simp only: tkc drc ih bk)
  then show ?case by (simp add: enc_eq)
qed

lemma strip_padding_pad:
  assumes "1 \<le> p" "p \<le> aes_BlockSize"
  shows "spec_strip_padding (M @ replicate p (of_nat p :: byte)) = Some M"
proof -
  have u: "unat (of_nat p :: byte) = p"
    using assms by (simp add: aes_BlockSize_def unat_of_nat)
  have l: "last (M @ replicate p (of_nat p :: byte)) = of_nat p"
    using assms by simp
  show ?thesis
    using assms by (simp add: spec_strip_padding_def l u Let_def)
qed


lemma padded_length:
  "length M + (aes_BlockSize - length M mod aes_BlockSize) = aes_BlockSize * (length M div aes_BlockSize + 1)"
  unfolding aes_BlockSize_def by presburger

lemma io_ReadFull_length: "io_ReadFull w k n = Inr bs \<Longrightarrow> length bs = n"
  by (auto simp: io_ReadFull_def split: sum.splits)

lemma encryptAES_Inr:
  assumes "encryptAES w M key = Inr (ciphertext, iv)"
  shows "io_ReadFull w 1 aes_BlockSize = Inr iv"
    and "ciphertext = cbc_CryptBlocks (aes_Encrypt w key) iv
           (M @ replicate (aes_BlockSize - length M mod aes_BlockSize)
                  (of_nat (aes_BlockSize - length M mod aes_BlockSize)))"
    and "length key = 16 \<or> length key = 24 \<or> length key = 32"
  using assms
  by (auto simp: encryptAES_def aes_NewCipher_def cipher_CBCEncrypt_def Let_def
      split: sum.splits if_splits)

lemma encryptAES_succeeds:
  assumes "length key = 16 \<or> length key = 24 \<or> length key = 32"
    and "io_ReadFull w 1 aes_BlockSize = Inr iv"
  shows "encryptAES w M key = Inr (cbc_CryptBlocks (aes_Encrypt w key) iv
           (M @ replicate (aes_BlockSize - length M mod aes_BlockSize)
                  (of_nat (aes_BlockSize - length M mod aes_BlockSize))), iv)"
proof -
  have "length iv = aes_BlockSize" using assms(2) by (rule io_ReadFull_length)
  moreover have "(length M + (aes_BlockSize - length M mod aes_BlockSize)) mod aes_BlockSize = 0"
    by (simp only: padded_length mod_mult_self1_is_0)
  ultimately show ?thesis
    using assms
    by (simp add: encryptAES_def aes_NewCipher_def cipher_CBCEncrypt_def Let_def)
qed

lemma encryptAES_never_panics: "encryptAES w M key \<noteq> Inl (Panic msg)"
proof (cases "length key = 16 \<or> length key = 24 \<or> length key = 32")
  case False
  then show ?thesis by (simp add: encryptAES_def aes_NewCipher_def)
next
  case k: True
  show ?thesis
  proof (cases "io_ReadFull w 1 aes_BlockSize")
    case (Inl err)
    with k show ?thesis by (auto simp: encryptAES_def aes_NewCipher_def Let_def)
  next
    case (Inr iv)
    with k show ?thesis by (simp add: encryptAES_succeeds)
  qed
qed

lemma b64_index_char: "i < 64 \<Longrightarrow> b64_index (b64_char i) = Some i"
  by (auto simp: b64_index_def b64_char_def Let_def)

lemma b64_char_not_pad: "i < 64 \<Longrightarrow> b64_char i \<noteq> CHR ''=''"
proof
  assume "i < 64" and "b64_char i = CHR ''=''"
  then have "b64_index (CHR ''='') = Some i" using b64_index_char by metis
  then show False by (simp add: b64_index_def)
qed

lemma byte_of_nat_256: "(of_nat (k * 256 + n) :: byte) = of_nat n"
  unfolding word_of_nat_eq_iff by (simp add: take_bit_eq_mod)

lemma byte_unat_less: "unat (x :: byte) < 256"
  using unsigned_less [of x] by simp

lemma quantum_arith:
  fixes a b c :: nat
  assumes "b < 256" "c < 256"
  shows "a div 4 * 4 + (a mod 4 * 16 + b div 16) div 16 = a"
    and "(a mod 4 * 16 + b div 16) * 16 + (b mod 16 * 4 + c div 64) div 4 = a mod 4 * 256 + b"
    and "(b mod 16 * 4 + c div 64) * 64 + c mod 64 = b mod 16 * 256 + c"
proof -
  have b16: "b div 16 < 16" using assms(1) by simp
  have c64: "c div 64 < 4" using assms(2) by simp
  have "(a mod 4 * 16 + b div 16) div 16 = a mod 4" using b16 by simp
  then show "a div 4 * 4 + (a mod 4 * 16 + b div 16) div 16 = a" by simp
  have "(b mod 16 * 4 + c div 64) div 4 = b mod 16" using c64 by simp
  then show "(a mod 4 * 16 + b div 16) * 16 + (b mod 16 * 4 + c div 64) div 4 = a mod 4 * 256 + b"
    by (simp add: algebra_simps)
  show "(b mod 16 * 4 + c div 64) * 64 + c mod 64 = b mod 16 * 256 + c"
    by (simp add: algebra_simps)
qed

lemma b64_quantum:
  fixes x y z :: byte
  shows "(of_nat (unat x div 4 * 4 + (unat x mod 4 * 16 + unat y div 16) div 16) :: byte) = x"
    and "(of_nat ((unat x mod 4 * 16 + unat y div 16) * 16 + (unat y mod 16 * 4 + unat z div 64) div 4) :: byte) = y"
    and "(of_nat ((unat y mod 16 * 4 + unat z div 64) * 64 + unat z mod 64) :: byte) = z"
  by (simp_all only: quantum_arith [OF byte_unat_less byte_unat_less] byte_of_nat_256) simp_all

lemma b64_bounds:
  fixes x y z :: byte
  shows "unat x div 4 < 64" "unat x mod 4 * 16 + unat y div 16 < 64"
    "unat y mod 16 * 4 + unat z div 64 < 64" "unat z mod 64 < 64"
    "unat x mod 4 * 16 < 64" "unat y mod 16 * 4 < 64"
proof -
  have ux: "unat x < 256" and uy: "unat y < 256" and uz: "unat z < 256"
    by (rule byte_unat_less)+
  have x4: "unat x mod 4 < 4" and y16: "unat y mod 16 < 16" by simp_all
  have yd: "unat y div 16 < 16" using uy by simp
  have zd: "unat z div 64 < 4" using uz by simp
  show "unat x div 4 < 64" using ux by simp
  show "unat x mod 4 * 16 + unat y div 16 < 64" using x4 yd by linarith
  show "unat y mod 16 * 4 + unat z div 64 < 64" using y16 zd by linarith
  show "unat z mod 64 < 64" by simp
  show "unat x mod 4 * 16 < 64" using x4 by linarith
  show "unat y mod 16 * 4 < 64" using y16 by linarith
qed


lemmas b64_idx = b64_bounds [THEN b64_index_char]
lemmas b64_np = b64_bounds [THEN b64_char_not_pad]

lemma b64_roundtrip: "b64_decode (b64_encode bs) = Inr bs"
proof (induction bs rule: b64_encode.induct)
  case (1 x y z rest)
  then show ?case
    by (simp only: b64_encode.simps b64_decode.simps b64_idx b64_np b64_quantum
          prod.case option.case sum.case simp_thms if_False)
next
  case (2 x y)
  have q: "(of_nat (unat x div 4 * 4 + (unat x mod 4 * 16 + unat y div 16) div 16) :: byte) = x"
    "(of_nat ((unat x mod 4 * 16 + unat y div 16) * 16 + (unat y mod 16 * 4) div 4) :: byte) = y"
    using b64_quantum(1) [of x y] b64_quantum(2) [of x y 0] by simp_all
  show ?case
    by (simp only: b64_encode.simps b64_decode.simps b64_idx b64_np q
          prod.case option.case sum.case simp_thms if_False if_True)
next
  case (3 x)
  have q: "(of_nat (unat x div 4 * 4 + (unat x mod 4 * 16) div 16) :: byte) = x"
    using b64_quantum(1) [of x 0] by simp
  show ?case
    by (simp only: b64_encode.simps b64_decode.simps b64_idx b64_np q
          prod.case option.case sum.case simp_thms if_False if_True)
next
  case 4
  then show ?case by simp
qed


lemma wrap64_id: "- (2 ^ 63) \<le> x \<Longrightarrow> x < 2 ^ 63 \<Longrightarrow> wrap64 x = x"
  by (simp add: wrap64_def)

lemma message_index: "messages ! nat (c smod int (length messages)) = hd messages"
  by (simp add: messages_def signed_modulo_int_def)

lemma tick_not_completed_frame:
  assumes "tick w s = (outcome, s')" "\<not> completed outcome"
  shows "operationCount s' = operationCount s"
    and "rsaTotalDuration s' = rsaTotalDuration s"
    and "mlkemTotalDuration s' = mlkemTotalDuration s"
    and "rsaEncryptionDurationAvg s' = rsaEncryptionDurationAvg s"
    and "mlkemEncapsulationDurationAvg s' = mlkemEncapsulationDurationAvg s"
    and "encryptionDurationRatio s' = encryptionDurationRatio s"
    and "encryptedKeySizeRatio s' = encryptedKeySizeRatio s"
    and "publicKeySizeRatio s' = publicKeySizeRatio s"
    and "mlkemEncryptedKeySize s' = mlkemEncryptedKeySize s"
    and "mlkemEncapsulationDuration s' = mlkemEncapsulationDuration s"
  using assms
  by (auto simp: tick_def Let_def split: sum.splits prod.splits aes_error.splits)

text \<open>The state in which a tick that completes reaches line 256.\<close>

lemma tick_completed_state:
  assumes "tick w s = (Completed m, s')"
  shows "\<exists>rsaPublicKey rsaPubKeyBytes mlkemPublicKey mlkemPubKeyBytes aesKey encryptedMessage iv
           rsaEncryptedAESKey mlkemCiphertext sharedSecret.
      fetchPublicKey w ''http://rsa-server:8080/public-key'' = Inr (rsaPublicKey, rsaPubKeyBytes)
    \<and> fetchMLKEMPublicKey w ''http://ml-kem-server:8081/public-key''
          = Inr (mlkemPublicKey, mlkemPubKeyBytes)
    \<and> io_ReadFull w 0 32 = Inr aesKey
    \<and> encryptAES w (hd messages) aesKey = Inr (encryptedMessage, iv)
    \<and> encryptRSA w rsaPublicKey aesKey = Inr rsaEncryptedAESKey
    \<and> encryptMLKEM w mlkemPublicKey aesKey = Inr (mlkemCiphertext, sharedSecret)
    \<and> m = \<lparr>len_rsaPubKeyBytes = length rsaPubKeyBytes,
             len_mlkemPubKeyBytes = length mlkemPubKeyBytes,
             len_rsaEncryptedAESKey = length rsaEncryptedAESKey,
             len_mlkemCiphertext = length mlkemCiphertext,
             len_encryptedMessage = length encryptedMessage,
             len_iv = length iv\<rparr>
    \<and> s' = recordRatios (rsaEncryptDuration w) (mlkemEncapsulateDuration w)
             rsaEncryptedAESKey mlkemCiphertext rsaPubKeyBytes mlkemPubKeyBytes
             (recordAverages (rsaEncryptDuration w) (mlkemEncapsulateDuration w)
               (s\<lparr>counter := wrap64 (counter s + 1),
                   encryptionCounter := encryptionCounter s + 1,
                   rsaPublicKeySize := float64_of_int (int (length rsaPubKeyBytes)),
                   mlkemPublicKeySize := float64_of_int (int (length mlkemPubKeyBytes)),
                   rsaEncryptedKeySize := float64_of_int (int (length rsaEncryptedAESKey)),
                   rsaEncryptionDuration := Seconds (rsaEncryptDuration w),
                   mlkemEncryptedKeySize := float64_of_int (int (length mlkemCiphertext)),
                   mlkemEncapsulationDuration := Seconds (mlkemEncapsulateDuration w)\<rparr>))"
  using assms
  by (auto simp: tick_def Let_def message_index split: sum.splits prod.splits aes_error.splits)

lemma tick_completes:
  assumes "fetchPublicKey w ''http://rsa-server:8080/public-key'' = Inr (rsaPublicKey, rsaPubKeyBytes)"
    and "fetchMLKEMPublicKey w ''http://ml-kem-server:8081/public-key''
          = Inr (mlkemPublicKey, mlkemPubKeyBytes)"
    and "io_ReadFull w 0 32 = Inr aesKey"
    and "encryptAES w (hd messages) aesKey = Inr (encryptedMessage, iv)"
    and "encryptRSA w rsaPublicKey aesKey = Inr rsaEncryptedAESKey"
    and "encryptMLKEM w mlkemPublicKey aesKey = Inr (mlkemCiphertext, sharedSecret)"
  shows "tick w s =
    (Completed \<lparr>len_rsaPubKeyBytes = length rsaPubKeyBytes,
             len_mlkemPubKeyBytes = length mlkemPubKeyBytes,
             len_rsaEncryptedAESKey = length rsaEncryptedAESKey,
             len_mlkemCiphertext = length mlkemCiphertext,
             len_encryptedMessage = length encryptedMessage,
             len_iv = length iv\<rparr>,
     recordRatios (rsaEncryptDuration w) (mlkemEncapsulateDuration w)
             rsaEncryptedAESKey mlkemCiphertext rsaPubKeyBytes mlkemPubKeyBytes
             (recordAverages (rsaEncryptDuration w) (mlkemEncapsulateDuration w)
               (s\<lparr>counter := wrap64 (counter s + 1),
                   encryptionCounter := encryptionCounter s + 1,
                   rsaPublicKeySize := float64_of_int (int (length rsaPubKeyBytes)),
                   mlkemPublicKeySize := float64_of_int (int (length mlkemPubKeyBytes)),
                   rsaEncryptedKeySize := float64_of_int (int (length rsaEncryptedAESKey)),
                   rsaEncryptionDuration := Seconds (rsaEncryptDuration w),
                   mlkemEncryptedKeySize := float64_of_int (int (length mlkemCiphertext)),
                   mlkemEncapsulationDuration := Seconds (mlkemEncapsulateDuration w)\<rparr>)))"
  using assms by (simp add: tick_def Let_def message_index)

lemma recordAverages_fields:
  "operationCount (recordAverages r k s) = wrap64 (operationCount s + 1)"
  "rsaTotalDuration (recordAverages r k s) = fadd (rsaTotalDuration s) (Seconds r)"
  "mlkemTotalDuration (recordAverages r k s) = fadd (mlkemTotalDuration s) (Seconds k)"
  "rsaEncryptionDurationAvg (recordAverages r k s)
     = fdiv (fadd (rsaTotalDuration s) (Seconds r)) (float64_of_int (wrap64 (operationCount s + 1)))"
  "mlkemEncapsulationDurationAvg (recordAverages r k s)
     = fdiv (fadd (mlkemTotalDuration s) (Seconds k)) (float64_of_int (wrap64 (operationCount s + 1)))"
  "encryptionDurationRatio (recordAverages r k s) = encryptionDurationRatio s"
  "encryptedKeySizeRatio (recordAverages r k s) = encryptedKeySizeRatio s"
  "publicKeySizeRatio (recordAverages r k s) = publicKeySizeRatio s"
  "rsaPublicKeySize (recordAverages r k s) = rsaPublicKeySize s"
  "mlkemPublicKeySize (recordAverages r k s) = mlkemPublicKeySize s"
  "rsaEncryptedKeySize (recordAverages r k s) = rsaEncryptedKeySize s"
  "mlkemEncryptedKeySize (recordAverages r k s) = mlkemEncryptedKeySize s"
  "rsaEncryptionDuration (recordAverages r k s) = rsaEncryptionDuration s"
  "mlkemEncapsulationDuration (recordAverages r k s) = mlkemEncapsulationDuration s"
  "encryptionCounter (recordAverages r k s) = encryptionCounter s"
  "counter (recordAverages r k s) = counter s"
  by (simp_all add: recordAverages_def Let_def)

lemma recordRatios_fields:
  "operationCount (recordRatios r k a b c d s) = operationCount s"
  "rsaTotalDuration (recordRatios r k a b c d s) = rsaTotalDuration s"
  "mlkemTotalDuration (recordRatios r k a b c d s) = mlkemTotalDuration s"
  "rsaEncryptionDurationAvg (recordRatios r k a b c d s) = rsaEncryptionDurationAvg s"
  "mlkemEncapsulationDurationAvg (recordRatios r k a b c d s) = mlkemEncapsulationDurationAvg s"
  "rsaPublicKeySize (recordRatios r k a b c d s) = rsaPublicKeySize s"
  "mlkemPublicKeySize (recordRatios r k a b c d s) = mlkemPublicKeySize s"
  "rsaEncryptedKeySize (recordRatios r k a b c d s) = rsaEncryptedKeySize s"
  "mlkemEncryptedKeySize (recordRatios r k a b c d s) = mlkemEncryptedKeySize s"
  "rsaEncryptionDuration (recordRatios r k a b c d s) = rsaEncryptionDuration s"
  "mlkemEncapsulationDuration (recordRatios r k a b c d s) = mlkemEncapsulationDuration s"
  "encryptionCounter (recordRatios r k a b c d s) = encryptionCounter s"
  "counter (recordRatios r k a b c d s) = counter s"
  by (simp_all add: recordRatios_def Let_def)

lemma recordRatios_ratios:
  "encryptionDurationRatio (recordRatios r k a b c d s)
     = (if fpositive (Seconds r) then fdiv (Seconds k) (Seconds r) else encryptionDurationRatio s)"
  "encryptedKeySizeRatio (recordRatios r k a b c d s)
     = (if 0 < length a
        then fdiv (float64_of_int (int (length b))) (float64_of_int (int (length a)))
        else encryptedKeySizeRatio s)"
  "publicKeySizeRatio (recordRatios r k a b c d s)
     = (if 0 < length c
        then fdiv (float64_of_int (int (length d))) (float64_of_int (int (length c)))
        else publicKeySizeRatio s)"
  by (simp_all add: recordRatios_def Let_def)


section \<open>The example worlds, evaluated\<close>

lemma example_lengths:
  "length example_rsa_der = 294" "length example_mlkem_key = 1184"
  "length example_key = 32" "length example_iv = 16" "length (hd messages) = 60"
  by (simp_all add: example_rsa_der_def example_mlkem_key_def example_key_def example_iv_def
      messages_def)

lemma good_fetch_rsa:
  "fetchPublicKey good_world ''http://rsa-server:8080/public-key''
     = Inr (\<lparr>N = 3233, E = 65537\<rparr>, example_rsa_der)"
  by (simp add: fetchPublicKey_def good_world_def rsa_url_def b64_roundtrip example_lengths)

lemma good_fetch_mlkem:
  "fetchMLKEMPublicKey good_world ''http://ml-kem-server:8081/public-key''
     = Inr (Kyber768PublicKey example_mlkem_key, example_mlkem_key)"
  by (simp add: fetchMLKEMPublicKey_def good_world_def rsa_url_def mlkem_url_def b64_roundtrip
      example_lengths)

lemma good_reads:
  "io_ReadFull good_world 0 32 = Inr example_key"
  "io_ReadFull good_world 1 aes_BlockSize = Inr example_iv"
  by (simp_all add: io_ReadFull_def good_world_def example_key_def example_iv_def
      aes_BlockSize_def)

lemma toy_block_contract:
  assumes "aes_BlockSize \<le> length key" "length b = aes_BlockSize"
  shows "length (toy_block key b) = aes_BlockSize" "toy_block key (toy_block key b) = b"
proof -
  have "length b = length (take aes_BlockSize key)" using assms by simp
  then show "toy_block key (toy_block key b) = b"
    unfolding toy_block_def by (rule xor_bytes_cancel)
  show "length (toy_block key b) = aes_BlockSize"
    using assms by (simp add: toy_block_def xor_bytes_length)
qed

lemma good_cipher: "aes_Encrypt good_world = toy_block"
  by (simp add: good_world_def)

lemma good_aes:
  "encryptAES good_world (hd messages) example_key = Inr (example_ciphertext, example_iv)"
proof -
  have "aes_Encrypt good_world = toy_block" by (simp add: good_world_def)
  moreover have "aes_BlockSize - length (hd messages) mod aes_BlockSize = 4"
    by (simp add: example_lengths aes_BlockSize_def)
  moreover have "length example_key = 16 \<or> length example_key = 24 \<or> length example_key = 32"
    by (simp add: example_lengths)
  ultimately show ?thesis
    using encryptAES_succeeds [OF _ good_reads(2), of example_key "hd messages"]
    by (simp add: example_ciphertext_def)
qed

lemma example_ciphertext_length: "length example_ciphertext = 64"
proof -
  have "length (hd messages @ replicate 4 (4 :: byte)) = aes_BlockSize * 4"
    by (simp add: example_lengths aes_BlockSize_def)
  then have "length (cbc_CryptBlocks (toy_block example_key) example_iv
                (hd messages @ replicate 4 4)) = aes_BlockSize * 4"
    by (intro cbc_CryptBlocks_length toy_block_contract)
       (simp_all add: example_lengths aes_BlockSize_def)
  then show ?thesis by (simp add: example_ciphertext_def aes_BlockSize_def)
qed

lemma good_wraps:
  "encryptRSA good_world \<lparr>N = 3233, E = 65537\<rparr> example_key = Inr (replicate 256 1)"
  "encryptMLKEM good_world (Kyber768PublicKey example_mlkem_key) example_key
     = Inr (replicate 1088 2, replicate 32 3)"
  by (simp_all add: encryptRSA_def encryptMLKEM_def good_world_def example_lengths)

lemma good_durations:
  "rsaEncryptDuration good_world = 100000000" "mlkemEncapsulateDuration good_world = 2000000"
  by (simp_all add: good_world_def)

lemma good_tick:
  "tick good_world s =
    (Completed good_summary,
     recordRatios 100000000 2000000 (replicate 256 1) (replicate 1088 2)
       example_rsa_der example_mlkem_key
       (recordAverages 100000000 2000000
          (s\<lparr>counter := wrap64 (counter s + 1),
              encryptionCounter := encryptionCounter s + 1,
              rsaPublicKeySize := float64_of_int 294,
              mlkemPublicKeySize := float64_of_int 1184,
              rsaEncryptedKeySize := float64_of_int 256,
              rsaEncryptionDuration := Seconds 100000000,
              mlkemEncryptedKeySize := float64_of_int 1088,
              mlkemEncapsulationDuration := Seconds 2000000\<rparr>)))"
  using tick_completes [OF good_fetch_rsa good_fetch_mlkem good_reads(1) good_aes good_wraps, of s]
  by (simp add: example_lengths example_ciphertext_length good_durations good_summary_def)

lemma float_values:
  "Seconds 0 = Fin 0"
  "Seconds 100000000 = Fin (3602879701896397 / 36028797018963968)"
  "Seconds 2000000 = Fin (1152921504606847 / 576460752303423488)"
  "float64_of_int 0 = Fin 0" "float64_of_int 1 = Fin 1" "float64_of_int 3 = Fin 3"
  "float64_of_int 294 = Fin 294" "float64_of_int 1184 = Fin 1184"
  "float64_of_int 256 = Fin 256" "float64_of_int 1088 = Fin 1088"
  "float64_of_int 270 = Fin 270"
  by code_simp+

lemma mlkem_down_fetches:
  "fetchPublicKey mlkem_down_world ''http://rsa-server:8080/public-key''
     = Inr (\<lparr>N = 3233, E = 65537\<rparr>, example_rsa_der)"
  "fetchMLKEMPublicKey mlkem_down_world ''http://ml-kem-server:8081/public-key''
     = Inl (HTTPGetError ''connection refused'')"
  by (simp_all add: fetchPublicKey_def fetchMLKEMPublicKey_def mlkem_down_world_def
      good_world_def rsa_url_def b64_roundtrip example_lengths)

lemma mlkem_down_tick:
  "tick mlkem_down_world s =
     (MLKEMFetchFailed (HTTPGetError ''connection refused''),
      s\<lparr>counter := wrap64 (counter s + 1), encryptionCounter := encryptionCounter s + 1,
        rsaPublicKeySize := float64_of_int 294\<rparr>)"
  by (simp add: tick_def Let_def mlkem_down_fetches example_lengths)

lemma b64_decode_malformed:
  "b64_decode ''@@@@'' = Inl ''illegal base64 data''"
  "b64_decode ''AQID*A=='' = Inl ''illegal base64 data''"
  by (simp_all add: b64_index_def)

lemma rsa_bad_base64_fetch:
  "fetchPublicKey rsa_bad_base64_world ''http://rsa-server:8080/public-key''
     = Inl (Base64DecodeError ''illegal base64 data'')"
  by (simp add: fetchPublicKey_def rsa_bad_base64_world_def good_world_def rsa_url_def
      b64_index_def)

lemma mlkem_bad_base64_fetches:
  "fetchPublicKey mlkem_bad_base64_world ''http://rsa-server:8080/public-key''
     = Inr (\<lparr>N = 3233, E = 65537\<rparr>, example_rsa_der)"
  "fetchMLKEMPublicKey mlkem_bad_base64_world ''http://ml-kem-server:8081/public-key''
     = Inl (Base64DecodeError ''illegal base64 data'')"
  by (simp_all add: fetchPublicKey_def fetchMLKEMPublicKey_def mlkem_bad_base64_world_def
      good_world_def rsa_url_def mlkem_url_def b64_roundtrip example_lengths
      b64_index_def)

lemma zero_world_steps:
  "fetchPublicKey zero_world ''http://rsa-server:8080/public-key''
     = Inr (\<lparr>N = 3233, E = 65537\<rparr>, [])"
  "fetchMLKEMPublicKey zero_world ''http://ml-kem-server:8081/public-key''
     = Inr (Kyber768PublicKey example_mlkem_key, example_mlkem_key)"
  "io_ReadFull zero_world 0 32 = Inr example_key"
  "encryptAES zero_world (hd messages) example_key = encryptAES good_world (hd messages) example_key"
  "encryptRSA zero_world \<lparr>N = 3233, E = 65537\<rparr> example_key = Inr []"
  "encryptMLKEM zero_world (Kyber768PublicKey example_mlkem_key) example_key
     = Inr (replicate 1088 2, replicate 32 3)"
  "rsaEncryptDuration zero_world = 0" "mlkemEncapsulateDuration zero_world = 2000000"
  by (simp_all add: fetchPublicKey_def fetchMLKEMPublicKey_def zero_world_def
      good_world_def rsa_url_def mlkem_url_def b64_roundtrip example_lengths
      io_ReadFull_def example_key_def encryptAES_def aes_NewCipher_def
      encryptRSA_def encryptMLKEM_def)

lemma zero_tick:
  "tick zero_world s =
    (Completed \<lparr>len_rsaPubKeyBytes = 0, len_mlkemPubKeyBytes = 1184,
        len_rsaEncryptedAESKey = 0, len_mlkemCiphertext = 1088,
        len_encryptedMessage = 64, len_iv = 16\<rparr>,
     recordRatios 0 2000000 [] (replicate 1088 2) [] example_mlkem_key
       (recordAverages 0 2000000
          (s\<lparr>counter := wrap64 (counter s + 1),
              encryptionCounter := encryptionCounter s + 1,
              rsaPublicKeySize := float64_of_int 0,
              mlkemPublicKeySize := float64_of_int 1184,
              rsaEncryptedKeySize := float64_of_int 0,
              rsaEncryptionDuration := Seconds 0,
              mlkemEncryptedKeySize := float64_of_int 1088,
              mlkemEncapsulationDuration := Seconds 2000000\<rparr>)))"
  using tick_completes [OF zero_world_steps(1,2,3) _ zero_world_steps(5,6),
      of example_ciphertext example_iv s]
  by (simp add: zero_world_steps(4,7,8) good_aes example_lengths example_ciphertext_length)


section \<open>The claims\<close>

text \<open>
  C9. A tick that completes adds one to the operation count, which is the count of both
  schemes, and adds exactly one sample to each cumulative duration: the RSA wrap
  duration to one, the ML-KEM encapsulation duration to the other. A tick that does not
  complete leaves all three as they were. The count is a Go int: the addition is exact
  below the largest int64.
\<close>

theorem tick_running_statistics:
  assumes "tick w s = (outcome, s')"
  shows "(completed outcome \<longrightarrow>
            operationCount s' = wrap64 (operationCount s + 1)
          \<and> (- (2 ^ 63) \<le> operationCount s \<and> operationCount s < 2 ^ 63 - 1
               \<longrightarrow> operationCount s' = operationCount s + 1)
          \<and> rsaTotalDuration s' = fadd (rsaTotalDuration s) (Seconds (rsaEncryptDuration w))
          \<and> mlkemTotalDuration s'
               = fadd (mlkemTotalDuration s) (Seconds (mlkemEncapsulateDuration w)))
       \<and> (\<not> completed outcome \<longrightarrow>
            operationCount s' = operationCount s
          \<and> rsaTotalDuration s' = rsaTotalDuration s
          \<and> mlkemTotalDuration s' = mlkemTotalDuration s)"
proof (cases outcome)
  case (Completed m)
  from tick_completed_state [OF assms [unfolded Completed]]
  have "operationCount s' = wrap64 (operationCount s + 1)"
    and "rsaTotalDuration s' = fadd (rsaTotalDuration s) (Seconds (rsaEncryptDuration w))"
    and "mlkemTotalDuration s'
           = fadd (mlkemTotalDuration s) (Seconds (mlkemEncapsulateDuration w))"
    by (auto simp: recordRatios_fields recordAverages_fields)
  then show ?thesis
    using Completed by (simp add: wrap64_id)
qed (use tick_not_completed_frame [OF assms] in simp_all)

theorem tick_running_statistics_witness:
  "completed (fst (tick good_world initial_state))
   \<and> operationCount (snd (tick good_world initial_state)) = 1
   \<and> rsaTotalDuration (snd (tick good_world initial_state))
       = Fin (3602879701896397 / 36028797018963968)
   \<and> mlkemTotalDuration (snd (tick good_world initial_state))
       = Fin (1152921504606847 / 576460752303423488)
   \<and> \<not> completed (fst (tick mlkem_down_world initial_state))
   \<and> operationCount (snd (tick mlkem_down_world initial_state)) = 0
   \<and> rsaTotalDuration (snd (tick mlkem_down_world initial_state)) = Fin 0
   \<and> mlkemTotalDuration (snd (tick mlkem_down_world initial_state)) = Fin 0"
proof -
  have z: "round64 (3602879701896397 / 36028797018963968)
             = Fin (3602879701896397 / 36028797018963968)"
    "round64 (1152921504606847 / 576460752303423488)
             = Fin (1152921504606847 / 576460752303423488)"
    by code_simp+
  have g: "completed (fst (tick good_world initial_state))"
    and d: "\<not> completed (fst (tick mlkem_down_world initial_state))"
    by (simp_all add: good_tick mlkem_down_tick)
  have i: "operationCount initial_state = 0" "rsaTotalDuration initial_state = Fin 0"
    "mlkemTotalDuration initial_state = Fin 0"
    by (simp_all add: initial_state_def)
  show ?thesis
    using tick_running_statistics [of good_world initial_state
        "fst (tick good_world initial_state)" "snd (tick good_world initial_state)"]
      tick_running_statistics [of mlkem_down_world initial_state
        "fst (tick mlkem_down_world initial_state)" "snd (tick mlkem_down_world initial_state)"]
      g d
    by (simp add: i good_durations float_values z)
qed


text \<open>
  C10. When \<^verbatim>\<open>encryptAES\<close> returns a ciphertext, it is the CBC encryption of the
  message followed by \<open>p\<close> bytes of value \<open>p\<close>, where \<open>p = 16 - len(M) mod 16\<close> lies
  between 1 and 16. Its length is \<open>16 * (len(M) div 16 + 1)\<close>: a positive multiple of the
  block size, greater than \<open>len(M)\<close>; a message whose length is a multiple of 16 gains a
  full block. The block operation is assumed to return blocks.
\<close>

theorem encryptAES_ciphertext_length:
  assumes "encryptAES w M key = Inr (ciphertext, iv)"
    and "\<forall>b. length b = aes_BlockSize \<longrightarrow> length (aes_Encrypt w key b) = aes_BlockSize"
  shows "1 \<le> aes_BlockSize - length M mod aes_BlockSize
       \<and> aes_BlockSize - length M mod aes_BlockSize \<le> 16
       \<and> ciphertext = cbc_CryptBlocks (aes_Encrypt w key) iv
           (M @ replicate (aes_BlockSize - length M mod aes_BlockSize)
                  (of_nat (aes_BlockSize - length M mod aes_BlockSize)))
       \<and> length ciphertext = 16 * (length M div 16 + 1)
       \<and> 16 dvd length ciphertext \<and> 0 < length ciphertext \<and> length M < length ciphertext
       \<and> (length M mod 16 = 0 \<longrightarrow> aes_BlockSize - length M mod aes_BlockSize = 16
            \<and> length ciphertext = length M + 16)"
proof -
  let ?p = "aes_BlockSize - length M mod aes_BlockSize"
  let ?padded = "M @ replicate ?p (of_nat ?p :: byte)"
  have iv: "length iv = aes_BlockSize"
    using encryptAES_Inr(1) [OF assms(1)] by (rule io_ReadFull_length)
  have ct: "ciphertext = cbc_CryptBlocks (aes_Encrypt w key) iv ?padded"
    using assms(1) by (rule encryptAES_Inr(2))
  have "length ?padded = aes_BlockSize * (length M div aes_BlockSize + 1)"
    using padded_length [of M] by simp
  with iv have "length (cbc_CryptBlocks (aes_Encrypt w key) iv ?padded)
      = aes_BlockSize * (length M div aes_BlockSize + 1)"
    using assms(2) by (intro cbc_CryptBlocks_length) auto
  with ct have len: "length ciphertext = 16 * (length M div 16 + 1)"
    by (simp add: aes_BlockSize_def)
  have m: "length M mod 16 < 16" by simp
  have d: "length M = 16 * (length M div 16) + length M mod 16" by simp
  have lt: "length M < length ciphertext" unfolding len by presburger
  have z: "length M mod 16 = 0 \<longrightarrow> length ciphertext = length M + 16"
    using len d by auto
  show ?thesis
    using ct len lt z m by (simp add: aes_BlockSize_def)
qed

theorem encryptAES_ciphertext_length_witness:
  "encryptAES good_world (hd messages) example_key = Inr (example_ciphertext, example_iv)
   \<and> length (hd messages) = 60 \<and> length example_ciphertext = 64
   \<and> example_ciphertext
       = cbc_CryptBlocks (toy_block example_key) example_iv (hd messages @ replicate 4 4)
   \<and> encryptAES good_world [] example_key
       = Inr (cbc_CryptBlocks (toy_block example_key) example_iv (replicate 16 16), example_iv)
   \<and> length (cbc_CryptBlocks (toy_block example_key) example_iv (replicate 16 16)) = 16"
proof -
  have c: "\<forall>b. length b = aes_BlockSize \<longrightarrow>
             length (aes_Encrypt good_world example_key b) = aes_BlockSize"
    by (simp add: good_cipher toy_block_contract example_lengths aes_BlockSize_def)
  have k: "length example_key = 16 \<or> length example_key = 24 \<or> length example_key = 32"
    by (simp add: example_lengths)
  have e: "encryptAES good_world [] example_key
       = Inr (cbc_CryptBlocks (toy_block example_key) example_iv (replicate 16 16), example_iv)"
    using encryptAES_succeeds [OF k good_reads(2), of "[]"]
    by (simp add: aes_BlockSize_def good_cipher)
  show ?thesis
    using encryptAES_ciphertext_length [OF good_aes c] encryptAES_ciphertext_length [OF e c]
    by (simp add: example_lengths aes_BlockSize_def good_cipher good_aes e)
qed

text \<open>
  C7. Round trip of the symmetric encryptor. The repository has no decryption, so the
  property is stated against CBC decryption and padding removal as defined above, for
  any block operation \<open>dec\<close> that inverts the cipher's block operation under the same
  key. Whenever \<^verbatim>\<open>encryptAES\<close> returns a ciphertext and an IV, decrypting and stripping
  the padding gives back the message; and for a 32-byte key and a random source that
  delivers, \<^verbatim>\<open>encryptAES\<close> does return them, for every message.
\<close>

theorem encryptAES_roundtrip:
  assumes "\<forall>b. length b = aes_BlockSize \<longrightarrow>
             length (aes_Encrypt w key b) = aes_BlockSize \<and> dec (aes_Encrypt w key b) = b"
  shows "(encryptAES w M key = Inr (ciphertext, iv) \<longrightarrow>
            spec_strip_padding (spec_cbc_decrypt dec iv ciphertext) = Some M)
       \<and> (length key = 32 \<and> rand_Reader w 1 = Inr supply \<longrightarrow>
            (\<exists>ct. encryptAES w M key = Inr (ct, map supply [0..<16])
                \<and> spec_strip_padding (spec_cbc_decrypt dec (map supply [0..<16]) ct) = Some M))"
proof -
  let ?p = "aes_BlockSize - length M mod aes_BlockSize"
  let ?padded = "M @ replicate ?p (of_nat ?p :: byte)"
  have p: "1 \<le> ?p" "?p \<le> aes_BlockSize" by (simp_all add: aes_BlockSize_def)
  have pl: "length ?padded = aes_BlockSize * (length M div aes_BlockSize + 1)"
    using padded_length [of M] by simp
  have rt: "spec_strip_padding (spec_cbc_decrypt dec iv' (cbc_CryptBlocks (aes_Encrypt w key) iv' ?padded)) = Some M"
    if "length iv' = aes_BlockSize" for iv'
  proof -
    have "spec_cbc_decrypt dec iv' (cbc_CryptBlocks (aes_Encrypt w key) iv' ?padded) = ?padded"
      using that pl assms
      by (intro cbc_roundtrip [where n = "length M div aes_BlockSize + 1"]) auto
    then show ?thesis using p by (simp only: strip_padding_pad)
  qed
  have first: "spec_strip_padding (spec_cbc_decrypt dec iv ciphertext) = Some M"
    if e: "encryptAES w M key = Inr (ciphertext, iv)"
  proof -
    have "length iv = aes_BlockSize"
      using encryptAES_Inr(1) [OF e] by (rule io_ReadFull_length)
    then show ?thesis using rt encryptAES_Inr(2) [OF e] by simp
  qed
  have second: "\<exists>ct. encryptAES w M key = Inr (ct, map supply [0..<16])
                \<and> spec_strip_padding (spec_cbc_decrypt dec (map supply [0..<16]) ct) = Some M"
    if "length key = 32" "rand_Reader w 1 = Inr supply"
  proof -
    have r: "io_ReadFull w 1 aes_BlockSize = Inr (map supply [0..<16])"
      using that(2) by (simp add: io_ReadFull_def aes_BlockSize_def)
    have "encryptAES w M key = Inr (cbc_CryptBlocks (aes_Encrypt w key) (map supply [0..<16]) ?padded,
        map supply [0..<16])"
      using that(1) r by (intro encryptAES_succeeds) auto
    moreover have "length (map supply [0..<16]) = aes_BlockSize"
      by (simp add: aes_BlockSize_def)
    ultimately show ?thesis using rt by blast
  qed
  show ?thesis using first second by blast
qed

theorem encryptAES_roundtrip_witness:
  "encryptAES good_world (hd messages) example_key = Inr (example_ciphertext, example_iv)
   \<and> spec_strip_padding
        (spec_cbc_decrypt (toy_block example_key) example_iv example_ciphertext)
       = Some (hd messages)"
proof -
  have c: "\<forall>b. length b = aes_BlockSize \<longrightarrow>
             length (aes_Encrypt good_world example_key b) = aes_BlockSize
           \<and> toy_block example_key (aes_Encrypt good_world example_key b) = b"
    by (simp add: good_cipher toy_block_contract example_lengths aes_BlockSize_def)
  show ?thesis
    using encryptAES_roundtrip [OF c, of "hd messages" example_ciphertext example_iv]
    by (simp add: good_aes)
qed

end
